theory Spec2Isabelle
  imports Complex_Main "HOL-Library.Sublist"
begin

section \<open>JavaScript strings\<close>

text \<open>
  A JavaScript string is a sequence of UTF-16 code units. The model keeps the code units
  below 256 (the Latin-1 range), one \<^typ>\<open>char\<close> each, and gives the built-in string
  methods that \<^verbatim>\<open>src/server.js\<close> calls their ECMAScript meaning on that range.
\<close>

abbreviation sq :: char where
  "sq \<equiv> CHR 0x27"

text \<open>
  \<^verbatim>\<open>String.prototype.trim\<close> removes WhiteSpace and LineTerminator code points from both
  ends: TAB, LF, VT, FF, CR, SP and NBSP are the ones below 256.
\<close>

definition isWhiteSpace :: "char \<Rightarrow> bool" where
  "isWhiteSpace c \<longleftrightarrow>
     c = CHR 0x09 \<or> c = CHR 0x0A \<or> c = CHR 0x0B \<or> c = CHR 0x0C \<or> c = CHR 0x0D \<or>
     c = CHR 0x20 \<or> c = CHR 0xA0"

definition trim :: "string \<Rightarrow> string" where
  "trim s = rev (dropWhile isWhiteSpace (rev (dropWhile isWhiteSpace s)))"

text \<open>
  \<^verbatim>\<open>String.prototype.toLowerCase\<close>: the upper-case letters below 256 are A to Z and
  U+00C0 to U+00DE without U+00D7; the lower-case letter is 0x20 above, which is the
  same code with bit 5 set.
\<close>

definition toLowerCase_char :: "char \<Rightarrow> char" where
  "toLowerCase_char c =
     (let n = (of_char c :: nat)
      in if (0x41 \<le> n \<and> n \<le> 0x5A) \<or> (0xC0 \<le> n \<and> n \<le> 0xDE \<and> n \<noteq> 0xD7)
         then (case c of Char b0 b1 b2 b3 b4 b5 b6 b7 \<Rightarrow> Char b0 b1 b2 b3 b4 True b6 b7)
         else c)"

definition toLowerCase :: "string \<Rightarrow> string" where
  "toLowerCase s = map toLowerCase_char s"

text \<open>\<^verbatim>\<open>s.startsWith(p)\<close> is \<^term>\<open>prefix p s\<close>.\<close>

definition startsWith :: "string \<Rightarrow> string \<Rightarrow> bool" where
  "startsWith s p \<longleftrightarrow> prefix p s"

text \<open>
  \<^verbatim>\<open>s.replaceAll(c, r)\<close> for a search string of one code unit and a replacement without
  a dollar sign (the source calls it with a single quote and two single quotes).
\<close>

definition replaceAll :: "string \<Rightarrow> char \<Rightarrow> string \<Rightarrow> string" where
  "replaceAll s c r = concat (map (\<lambda>x. if x = c then r else [x]) s)"

text \<open>\<^verbatim>\<open>s.includes(p)\<close>: p occurs in s.\<close>

fun includes_js :: "string \<Rightarrow> string \<Rightarrow> bool" where
  "includes_js [] p = (p = [])"
| "includes_js (c # cs) p = (prefix p (c # cs) \<or> includes_js cs p)"

text \<open>
  \<^verbatim>\<open>s.split(sep)\<close>: the pieces of s between the occurrences of sep, found from the left
  and not overlapping; an empty separator splits into code units. \<open>acc\<close> holds the
  piece being read, reversed.
\<close>

fun split_from :: "char \<Rightarrow> string \<Rightarrow> string \<Rightarrow> string \<Rightarrow> string list" where
  "split_from p ps acc [] = [rev acc]"
| "split_from p ps acc (c # cs) =
     (if prefix (p # ps) (c # cs)
      then rev acc # split_from p ps [] (drop (length ps) cs)
      else split_from p ps (c # acc) cs)"

definition split_js :: "string \<Rightarrow> string \<Rightarrow> string list" where
  "split_js s sep = (case sep of [] \<Rightarrow> map (\<lambda>c. [c]) s | p # ps \<Rightarrow> split_from p ps [] s)"

text \<open>\<^verbatim>\<open>xs.pop()\<close> returns the last element, or undefined (here None) on an empty array.\<close>

definition pop :: "'a list \<Rightarrow> 'a option" where
  "pop xs = (if xs = [] then None else Some (last xs))"

text \<open>A template literal renders undefined as the text \<^verbatim>\<open>undefined\<close>.\<close>

definition template_string :: "string option \<Rightarrow> string" where
  "template_string v = (case v of None \<Rightarrow> ''undefined'' | Some s \<Rightarrow> s)"

section \<open>JavaScript values\<close>

text \<open>
  The values a parsed JSON body and a result row can hold. Numbers stand for the finite
  doubles; only whether one is zero is ever read. An object is the list of its own
  properties, each name once.
\<close>

datatype jsvalue =
    Undefined
  | Null
  | JBool bool
  | JNum real
  | JStr string
  | JArr "jsvalue list"
  | JObj "(string \<times> jsvalue) list"

fun truthy :: "jsvalue \<Rightarrow> bool" where
  "truthy Undefined = False"
| "truthy Null = False"
| "truthy (JBool b) = b"
| "truthy (JNum n) = (n \<noteq> 0)"
| "truthy (JStr s) = (s \<noteq> [])"
| "truthy (JArr xs) = True"
| "truthy (JObj kvs) = True"

fun typeof :: "jsvalue \<Rightarrow> string" where
  "typeof Undefined = ''undefined''"
| "typeof Null = ''object''"
| "typeof (JBool b) = ''boolean''"
| "typeof (JNum n) = ''number''"
| "typeof (JStr s) = ''string''"
| "typeof (JArr xs) = ''object''"
| "typeof (JObj kvs) = ''object''"

text \<open>
  \<^verbatim>\<open>v.k\<close> for a property name k that no prototype defines (sql, current_database,
  table_count) and a value v that is neither null nor undefined: the source guards every
  read with \<^verbatim>\<open>|| {}\<close> or \<^verbatim>\<open>?.\<close>.
\<close>

fun getProp :: "jsvalue \<Rightarrow> string \<Rightarrow> jsvalue" where
  "getProp (JObj kvs) k = (case map_of kvs k of None \<Rightarrow> Undefined | Some v \<Rightarrow> v)"
| "getProp v k = Undefined"

text \<open>\<^verbatim>\<open>v[0]\<close> for a value v that is neither null nor undefined.\<close>

fun index0 :: "jsvalue \<Rightarrow> jsvalue" where
  "index0 (JArr (x # xs)) = x"
| "index0 (JStr (c # cs)) = JStr [c]"
| "index0 (JObj kvs) = (case map_of kvs ''0'' of None \<Rightarrow> Undefined | Some v \<Rightarrow> v)"
| "index0 v = Undefined"

text \<open>\<^verbatim>\<open>v?.f\<close>: undefined when v is null or undefined, the read otherwise.\<close>

definition optional_chain :: "jsvalue \<Rightarrow> (jsvalue \<Rightarrow> jsvalue) \<Rightarrow> jsvalue" where
  "optional_chain v f = (if v = Undefined \<or> v = Null then Undefined else f v)"

text \<open>\<^verbatim>\<open>a || b\<close> and \<^verbatim>\<open>a ?? b\<close>.\<close>

definition logical_or :: "jsvalue \<Rightarrow> jsvalue \<Rightarrow> jsvalue" where
  "logical_or a b = (if truthy a then a else b)"

definition nullish :: "jsvalue \<Rightarrow> jsvalue \<Rightarrow> jsvalue" where
  "nullish a b = (if a = Undefined \<or> a = Null then b else a)"

text \<open>
  An Error object: \<^verbatim>\<open>String(e)\<close> is \<^verbatim>\<open>Error.prototype.toString\<close>.
\<close>

record jserror =
  name :: string
  message :: string

definition String_error :: "jserror \<Rightarrow> string" where
  "String_error e =
     (if name e = [] then message e
      else if message e = [] then name e
      else name e @ '': '' @ message e)"

text \<open>
  A value of \<^verbatim>\<open>req.query\<close>: the query-string parser gives a string, an array or a nested
  object whose properties are again such values. \<^verbatim>\<open>String(v)\<close>, and a template literal
  likewise, takes a string as it is, joins an array's elements with commas, and renders an
  object as \<^verbatim>\<open>[object Object]\<close> through the inherited \<^verbatim>\<open>toString\<close>. An object with an own
  \<^verbatim>\<open>toString\<close> property (\<^verbatim>\<open>?schema[toString]=x\<close>) hides the inherited method behind a value
  that cannot be called, and \<^verbatim>\<open>valueOf\<close> gives no primitive either: the conversion
  throws a TypeError (\<open>Inl\<close>). In an array the first element that throws decides.
\<close>

datatype qsvalue =
    QStr string
  | QArr "qsvalue list"
  | QObj "(string \<times> qsvalue) list"

definition cannot_convert :: jserror where
  "cannot_convert =
     \<lparr>name = ''TypeError'', message = ''Cannot convert object to primitive value''\<rparr>"

fun join_comma :: "string list \<Rightarrow> string" where
  "join_comma [] = []"
| "join_comma [s] = s"
| "join_comma (s # t # ss) = s @ '','' @ join_comma (t # ss)"

fun in_order :: "(jserror + string) list \<Rightarrow> jserror + string list" where
  "in_order [] = Inr []"
| "in_order (Inl e # rs) = Inl e"
| "in_order (Inr t # rs) = (case in_order rs of Inl e \<Rightarrow> Inl e | Inr ts \<Rightarrow> Inr (t # ts))"

fun String_qs :: "qsvalue \<Rightarrow> jserror + string" where
  "String_qs (QStr s) = Inr s"
| "String_qs (QArr xs) =
     (case in_order (map String_qs xs) of Inl e \<Rightarrow> Inl e | Inr ts \<Rightarrow> Inr (join_comma ts))"
| "String_qs (QObj kvs) =
     (if map_of kvs ''toString'' = None then Inr ''[object Object]'' else Inl cannot_convert)"

fun truthy_qs :: "qsvalue \<Rightarrow> bool" where
  "truthy_qs (QStr s) = (s \<noteq> [])"
| "truthy_qs (QArr xs) = True"
| "truthy_qs (QObj kvs) = True"

section \<open>The database engine and the server's state\<close>

text \<open>What \<^verbatim>\<open>conn.all(sql, callback)\<close> hands to its callback: an error, or the rows.\<close>

datatype outcome = Failed jserror | Rows jsvalue

text \<open>
  The duckdb library, an external collaborator, over its own state \<open>'db\<close>:
  \<^verbatim>\<open>new duckdb.Database(path)\<close>, \<^verbatim>\<open>db.connect()\<close> and \<^verbatim>\<open>conn.run(sql)\<close> return or throw
  (\<open>Inl\<close>); \<^verbatim>\<open>conn.all(sql, callback)\<close> reports a failed query through its callback and
  does not throw, and the rows it hands over can be serialised as JSON.
\<close>

record 'db duckdb =
  new_Database :: "string \<Rightarrow> jserror + 'db"
  connect :: "'db \<Rightarrow> jserror + 'db"
  run :: "'db \<Rightarrow> string \<Rightarrow> jserror + 'db"
  all :: "'db \<Rightarrow> string \<Rightarrow> outcome \<times> 'db"

text \<open>
  The module's two variables (None is null), and the statements sent to the engine so
  far, in order.
\<close>

record 'db server =
  motherDuckDb :: "'db option"
  motherDuckConnection :: "'db option"
  issued :: "string list"

definition initial :: "'db server" where
  "initial = \<lparr>motherDuckDb = None, motherDuckConnection = None, issued = []\<rparr>"

record env =
  MOTHERDUCK_TOKEN :: "string option"
  MOTHERDUCK_DATABASE :: "string option"
  NODE_ENV :: "string option"

text \<open>\<^verbatim>\<open>process.env.X || d\<close>: the default stands in for an unset or empty variable.\<close>

definition env_or :: "string option \<Rightarrow> string \<Rightarrow> string" where
  "env_or v d = (case v of None \<Rightarrow> d | Some x \<Rightarrow> if x = [] then d else x)"

text \<open>\<^verbatim>\<open>conn.all(sql, callback)\<close> on the shared connection: the statement is logged.\<close>

definition conn_all ::
  "'db duckdb \<Rightarrow> 'db server \<Rightarrow> 'db \<Rightarrow> string \<Rightarrow> outcome \<times> 'db \<times> 'db server" where
  "conn_all E s c sql =
     (case all E c sql of
        (out, c') \<Rightarrow> (out, c', s\<lparr>motherDuckConnection := Some c', issued := issued s @ [sql]\<rparr>))"

text \<open>\<^verbatim>\<open>conn.run(sql)\<close>: the statement is logged whether the call returns or throws.\<close>

definition conn_run ::
  "'db duckdb \<Rightarrow> 'db server \<Rightarrow> 'db \<Rightarrow> string \<Rightarrow> (jserror \<times> 'db server) + ('db \<times> 'db server)" where
  "conn_run E s c sql =
     (case run E c sql of
        Inl e \<Rightarrow> Inl (e, s\<lparr>issued := issued s @ [sql]\<rparr>)
      | Inr c' \<Rightarrow> Inr (c', s\<lparr>issued := issued s @ [sql]\<rparr>))"

section \<open>Connection initialisation\<close>

definition attach_statement :: "string \<Rightarrow> string \<Rightarrow> string" where
  "attach_statement safeDb safeToken =
     ''ATTACH '' @ [sq] @ safeDb @ [sq] @ '' (TOKEN '' @ [sq] @ safeToken @ [sq] @ '');''"

text \<open>\<^verbatim>\<open>safeDb.includes('md:') ? safeDb.split('md:').pop() : safeDb\<close>\<close>

definition dbName_of :: "string \<Rightarrow> string" where
  "dbName_of safeDb =
     (if includes_js safeDb ''md:'' then template_string (pop (split_js safeDb ''md:''))
      else safeDb)"

definition use_statement :: "string \<Rightarrow> string" where
  "use_statement dbName = ''USE '' @ dbName @ '';''"

text \<open>
  The body of the try block of \<^verbatim>\<open>initializeMotherDuckConnection\<close>: \<open>Inl\<close> is an
  exception leaving the block, with the state as the throw left it.
\<close>

definition try_attach ::
  "'db duckdb \<Rightarrow> string \<Rightarrow> string \<Rightarrow> 'db server \<Rightarrow> (jserror \<times> 'db server) + 'db server" where
  "try_attach E motherDuckToken motherDuckDatabase s =
     (case new_Database E '':memory:'' of
        Inl e \<Rightarrow> Inl (e, s)
      | Inr db \<Rightarrow>
          let s0 = s\<lparr>motherDuckDb := Some db\<rparr> in
          (case connect E db of
             Inl e \<Rightarrow> Inl (e, s0)
           | Inr conn \<Rightarrow>
               let safeToken = replaceAll motherDuckToken sq [sq, sq];
                   safeDb = replaceAll motherDuckDatabase sq [sq, sq]
               in
               (case conn_run E s0 conn ''INSTALL motherduck;'' of
                  Inl x \<Rightarrow> Inl x
                | Inr (conn1, s1) \<Rightarrow>
               (case conn_run E s1 conn1 ''LOAD motherduck;'' of
                  Inl x \<Rightarrow> Inl x
                | Inr (conn2, s2) \<Rightarrow>
               (case conn_run E s2 conn2 (attach_statement safeDb safeToken) of
                  Inl x \<Rightarrow> Inl x
                | Inr (conn3, s3) \<Rightarrow>
               (case conn_run E s3 conn3 (use_statement (dbName_of safeDb)) of
                  Inl x \<Rightarrow> Inl x
                | Inr (conn4, s4) \<Rightarrow> Inr (s4\<lparr>motherDuckConnection := Some conn4\<rparr>)))))))"

text \<open>
  \<^verbatim>\<open>initializeMotherDuckConnection\<close>: an unset or empty token returns at once; the catch
  clause logs the exception and returns.
\<close>

definition initializeMotherDuckConnection :: "'db duckdb \<Rightarrow> env \<Rightarrow> 'db server \<Rightarrow> 'db server" where
  "initializeMotherDuckConnection E ev s =
     (let motherDuckToken = MOTHERDUCK_TOKEN ev;
          motherDuckDatabase = env_or (MOTHERDUCK_DATABASE ev) ''md:default''
      in case motherDuckToken of
           None \<Rightarrow> s
         | Some tok \<Rightarrow>
             if tok = [] then s
             else (case try_attach E tok motherDuckDatabase s of
                     Inl (error, s') \<Rightarrow> s'
                   | Inr s' \<Rightarrow> s'))"

section \<open>Route handlers\<close>

text \<open>A handler either sends a JSON response with a status, or calls \<^verbatim>\<open>next(err)\<close>.\<close>

datatype reply = Send nat jsvalue | Next jserror

definition not_configured :: jsvalue where
  "not_configured = JObj [(''error'', JStr ''MotherDuck not configured. Set MOTHERDUCK_TOKEN.'')]"

definition missing_sql :: jsvalue where
  "missing_sql = JObj [(''error'', JStr ''Missing SQL in body { sql }'')]"

definition only_select :: jsvalue where
  "only_select = JObj [(''error'', JStr ''Only SELECT queries are allowed.'')]"

text \<open>\<^verbatim>\<open>const { sql } = req.body || {}\<close>\<close>

definition body_sql :: "jsvalue \<Rightarrow> jsvalue" where
  "body_sql body = getProp (logical_or body (JObj [])) ''sql''"

text \<open>
  \<^verbatim>\<open>app.post('/api/md/query')\<close>. A value that is not a string has no trim method: the
  call would throw a TypeError into the handler's catch.
\<close>

definition post_md_query :: "'db duckdb \<Rightarrow> jsvalue \<Rightarrow> 'db server \<Rightarrow> reply \<times> 'db server" where
  "post_md_query E body s =
     (case motherDuckConnection s of
        None \<Rightarrow> (Send 503 not_configured, s)
      | Some c \<Rightarrow>
          let sql = body_sql body in
          if \<not> truthy sql \<or> typeof sql \<noteq> ''string'' then (Send 400 missing_sql, s)
          else
            (case sql of
               JStr text \<Rightarrow>
                 let trimmed = toLowerCase (trim text) in
                 if \<not> startsWith trimmed ''select'' then (Send 400 only_select, s)
                 else
                   (case conn_all E s c text of
                      (Failed err, c', s') \<Rightarrow> (Next err, s')
                    | (Rows rows, c', s') \<Rightarrow> (Send 200 (JObj [(''rows'', rows)]), s'))
             | _ \<Rightarrow> (Next \<lparr>name = ''TypeError'', message = ''sql.trim is not a function''\<rparr>, s)))"

text \<open>\<^verbatim>\<open>app.get('/api/md/ping')\<close>\<close>

definition get_md_ping :: "'db duckdb \<Rightarrow> 'db server \<Rightarrow> reply \<times> 'db server" where
  "get_md_ping E s =
     (case motherDuckConnection s of
        None \<Rightarrow> (Send 503 not_configured, s)
      | Some c \<Rightarrow>
          (case conn_all E s c ''SELECT 1 AS ok;'' of
             (Failed err, c', s') \<Rightarrow> (Next err, s')
           | (Rows rows, c', s') \<Rightarrow> (Send 200 (JObj [(''rows'', rows)]), s')))"

text \<open>The template literal of \<^verbatim>\<open>app.get('/api/md/tables')\<close>, line breaks and indentation kept.\<close>

definition tables_sql :: "string \<Rightarrow> string \<Rightarrow> string" where
  "tables_sql typeFilter schemaFilter =
     ''\<newline>      SELECT table_catalog, table_schema, table_name, table_type'' @
     ''\<newline>      FROM information_schema.tables'' @
     ''\<newline>      WHERE table_type '' @ typeFilter @
     ''\<newline>        AND table_schema NOT IN ('information_schema', 'pg_catalog')'' @
     ''\<newline>        '' @ schemaFilter @
     ''\<newline>      ORDER BY table_catalog, table_schema, table_name'' @
     ''\<newline>    ''"

text \<open>
  \<open>query\<close> is \<^verbatim>\<open>req.query\<close>, None for a parameter the request does not carry.
  \<^verbatim>\<open>req.query.schema ? `AND table_schema = '${req.query.schema}'` : ''\<close>
\<close>

definition schemaFilter_of :: "(string \<rightharpoonup> qsvalue) \<Rightarrow> jserror + string" where
  "schemaFilter_of query =
     (case query ''schema'' of
        None \<Rightarrow> Inr []
      | Some v \<Rightarrow>
          if truthy_qs v
          then (case String_qs v of
                  Inl e \<Rightarrow> Inl e
                | Inr t \<Rightarrow> Inr (''AND table_schema = '' @ [sq] @ t @ [sq]))
          else Inr [])"

text \<open>\<^verbatim>\<open>String(req.query.includeViews || '').toLowerCase() === 'true'\<close>\<close>

definition includeViews_of :: "(string \<rightharpoonup> qsvalue) \<Rightarrow> jserror + bool" where
  "includeViews_of query =
     (case (case query ''includeViews'' of
              None \<Rightarrow> Inr []
            | Some v \<Rightarrow> if truthy_qs v then String_qs v else Inr []) of
        Inl e \<Rightarrow> Inl e
      | Inr t \<Rightarrow> Inr (toLowerCase t = ''true''))"

text \<open>
  \<^verbatim>\<open>app.get('/api/md/tables')\<close>: an exception thrown while the statement is built is
  caught by the handler and handed to \<^verbatim>\<open>next\<close>, before anything is sent.
\<close>

definition get_md_tables ::
  "'db duckdb \<Rightarrow> (string \<rightharpoonup> qsvalue) \<Rightarrow> 'db server \<Rightarrow> reply \<times> 'db server" where
  "get_md_tables E query s =
     (case motherDuckConnection s of
        None \<Rightarrow> (Send 503 not_configured, s)
      | Some c \<Rightarrow>
          (case schemaFilter_of query of
             Inl error \<Rightarrow> (Next error, s)
           | Inr schemaFilter \<Rightarrow>
               (case includeViews_of query of
                  Inl error \<Rightarrow> (Next error, s)
                | Inr includeViews \<Rightarrow>
                    let typeFilter =
                          (if includeViews then ''IN ('BASE TABLE','VIEW')''
                           else ''= 'BASE TABLE'' @ [sq]);
                        sql = tables_sql typeFilter schemaFilter
                    in
                    (case conn_all E s c sql of
                       (Failed err, c', s') \<Rightarrow> (Next err, s')
                     | (Rows rows, c', s') \<Rightarrow> (Send 200 (JObj [(''tables'', rows)]), s')))))"

text \<open>The report of \<^verbatim>\<open>app.get('/api/md/diagnostics')\<close>, and its JSON form.\<close>

record diagnostics =
  database_list :: jsvalue
  current_database :: jsvalue
  schemas :: jsvalue
  table_count :: jsvalue
  errors :: "(string \<times> string) list"

definition diagnostics_json :: "diagnostics \<Rightarrow> jsvalue" where
  "diagnostics_json r =
     JObj [(''database_list'', database_list r),
           (''current_database'', current_database r),
           (''schemas'', schemas r),
           (''table_count'', table_count r),
           (''errors'', JObj (map (\<lambda>(k, m). (k, JStr m)) (errors r)))]"

text \<open>\<^verbatim>\<open>String(e.message || e)\<close>\<close>

definition error_text :: "jserror \<Rightarrow> string" where
  "error_text e = (if message e \<noteq> [] then message e else String_error e)"

definition get_md_diagnostics :: "'db duckdb \<Rightarrow> 'db server \<Rightarrow> reply \<times> 'db server" where
  "get_md_diagnostics E s =
     (case motherDuckConnection s of
        None \<Rightarrow> (Send 503 not_configured, s)
      | Some c \<Rightarrow>
          let result = \<lparr>database_list = Null, current_database = Null, schemas = Null,
                          table_count = Null, errors = []\<rparr>
          in
          (case conn_all E s c ''PRAGMA database_list;'' of (r1, c1, s1) \<Rightarrow>
          let result1 =
                (case r1 of
                   Failed e1 \<Rightarrow> result\<lparr>errors := errors result @ [(''database_list'', error_text e1)]\<rparr>
                 | Rows dbList \<Rightarrow> result\<lparr>database_list := dbList\<rparr>)
          in
          (case conn_all E s1 c1 ''SELECT current_database() AS current_database;'' of (r2, c2, s2) \<Rightarrow>
          let result2 =
                (case r2 of
                   Failed e2 \<Rightarrow> result1\<lparr>errors := errors result1 @ [(''current_database'', error_text e2)]\<rparr>
                 | Rows currentDb \<Rightarrow>
                     result1\<lparr>current_database :=
                       logical_or
                         (optional_chain (optional_chain currentDb index0)
                            (\<lambda>row. getProp row ''current_database''))
                         Null\<rparr>)
          in
          (case conn_all E s2 c2
                  ''SELECT schema_name FROM information_schema.schemata ORDER BY schema_name;'' of
             (r3, c3, s3) \<Rightarrow>
          let result3 =
                (case r3 of
                   Failed e3 \<Rightarrow> result2\<lparr>errors := errors result2 @ [(''schemata'', error_text e3)]\<rparr>
                 | Rows schemas' \<Rightarrow> result2\<lparr>schemas := schemas'\<rparr>)
          in
          (case conn_all E s3 c3 ''SELECT COUNT(*) AS table_count FROM information_schema.tables;'' of
             (r4, c4, s4) \<Rightarrow>
          let result4 =
                (case r4 of
                   Failed e4 \<Rightarrow> result3\<lparr>errors := errors result3 @ [(''table_count'', error_text e4)]\<rparr>
                 | Rows count \<Rightarrow>
                     result3\<lparr>table_count :=
                       nullish
                         (optional_chain (optional_chain count index0)
                            (\<lambda>row. getProp row ''table_count''))
                         Null\<rparr>)
          in (Send 200 (diagnostics_json result4), s4))))))"

section \<open>The error handler and the application\<close>

text \<open>
  The last middleware: \<open>now\<close> is \<^verbatim>\<open>new Date().toISOString()\<close>. The result is the status
  and the JSON body.
\<close>

definition error_handler :: "env \<Rightarrow> string \<Rightarrow> jserror \<Rightarrow> nat \<times> jsvalue" where
  "error_handler ev now err =
     (500,
      JObj [(''error'', JStr ''Something went wrong!''),
            (''message'',
               JStr (if NODE_ENV ev = Some ''production'' then ''Internal server error''
                     else message err)),
            (''timestamp'', JStr now)])"

datatype request =
    GET_md_tables "string \<rightharpoonup> qsvalue"
  | GET_md_diagnostics
  | GET_md_ping
  | POST_md_query jsvalue

definition route :: "'db duckdb \<Rightarrow> request \<Rightarrow> 'db server \<Rightarrow> reply \<times> 'db server" where
  "route E r s =
     (case r of
        GET_md_tables query \<Rightarrow> get_md_tables E query s
      | GET_md_diagnostics \<Rightarrow> get_md_diagnostics E s
      | GET_md_ping \<Rightarrow> get_md_ping E s
      | POST_md_query body \<Rightarrow> post_md_query E body s)"

definition app ::
  "'db duckdb \<Rightarrow> env \<Rightarrow> string \<Rightarrow> request \<Rightarrow> 'db server \<Rightarrow> (nat \<times> jsvalue) \<times> 'db server" where
  "app E ev now r s =
     (case route E r s of
        (Send status body, s') \<Rightarrow> ((status, body), s')
      | (Next err, s') \<Rightarrow> (error_handler ev now err, s'))"

text \<open>The requests of a run, each with its time of arrival, served one after the other.\<close>

fun serve ::
  "'db duckdb \<Rightarrow> env \<Rightarrow> (string \<times> request) list \<Rightarrow> 'db server \<Rightarrow> (nat \<times> jsvalue) list \<times> 'db server" where
  "serve E ev [] s = ([], s)"
| "serve E ev ((now, r) # rs) s =
     (case app E ev now r s of
        (resp, s') \<Rightarrow> (case serve E ev rs s' of (resps, s'') \<Rightarrow> (resp # resps, s'')))"

section \<open>Notions of the specification, and an engine for the examples\<close>

text \<open>The status of the response a handler sends itself; None when it calls \<^verbatim>\<open>next\<close>.\<close>

fun reply_status :: "reply \<Rightarrow> nat option" where
  "reply_status (Send status body) = Some status"
| "reply_status (Next err) = None"

text \<open>
  An engine over a counter of the statements it has run: it refuses the statements that
  \<open>refuses\<close> holds of, and answers every other query with one row.
\<close>

definition stub_rows :: jsvalue where
  "stub_rows =
     JArr [JObj [(''ok'', JNum 1), (''current_database'', JStr ''perps''), (''table_count'', JNum 7)]]"

definition stub_error :: jserror where
  "stub_error = \<lparr>name = ''Error'', message = ''refused''\<rparr>"

definition stub_engine :: "(string \<Rightarrow> bool) \<Rightarrow> nat duckdb" where
  "stub_engine refuses =
     \<lparr>new_Database = (\<lambda>path. Inr 0),
      connect = (\<lambda>db. Inr db),
      run = (\<lambda>c sql. if refuses sql then Inl stub_error else Inr (Suc c)),
      all = (\<lambda>c sql. if refuses sql then (Failed stub_error, Suc c) else (Rows stub_rows, Suc c))\<rparr>"

text \<open>A server whose connection has run the four statements of a successful start.\<close>

definition configured :: "nat server" where
  "configured = \<lparr>motherDuckDb = Some 0, motherDuckConnection = Some 4, issued = []\<rparr>"

text \<open>
  What the diagnostics report holds for one sub-query: the field is filled from the rows
  when the sub-query succeeded and stays null otherwise; a failure leaves one entry, its
  message, under the sub-query's key in \<^verbatim>\<open>errors\<close>.
\<close>

definition populated :: "outcome \<Rightarrow> (jsvalue \<Rightarrow> jsvalue) \<Rightarrow> jsvalue" where
  "populated r f = (case r of Failed e \<Rightarrow> Null | Rows rows \<Rightarrow> f rows)"

definition recorded_error :: "string \<Rightarrow> outcome \<Rightarrow> (string \<times> string) list" where
  "recorded_error key r = (case r of Failed e \<Rightarrow> [(key, error_text e)] | Rows rows \<Rightarrow> [])"

text \<open>Column k of the first row, undefined when there is no first row or no such column.\<close>

definition first_row :: "string \<Rightarrow> jsvalue \<Rightarrow> jsvalue" where
  "first_row k rows = optional_chain (optional_chain rows index0) (\<lambda>row. getProp row k)"

text \<open>
  The string value of a query parameter: the empty string for a parameter the request
  does not carry, the conversion of its value otherwise.
\<close>

definition param_text :: "(string \<rightharpoonup> qsvalue) \<Rightarrow> string \<Rightarrow> jserror + string" where
  "param_text query k = (case query k of None \<Rightarrow> Inr [] | Some v \<Rightarrow> String_qs v)"

text \<open>
  The statements of the attach sequence (install, load, attach, use) for a token and a
  catalogue identifier, and the first exception of a start: from opening the database,
  from connecting, or from running the sequence in order.
\<close>

definition attach_sequence :: "string \<Rightarrow> string \<Rightarrow> string list" where
  "attach_sequence tok database =
     [''INSTALL motherduck;'',
      ''LOAD motherduck;'',
      attach_statement (replaceAll database sq [sq, sq]) (replaceAll tok sq [sq, sq]),
      use_statement (dbName_of (replaceAll database sq [sq, sq]))]"

fun run_sequence :: "'db duckdb \<Rightarrow> 'db \<Rightarrow> string list \<Rightarrow> jserror + 'db" where
  "run_sequence E c [] = Inr c"
| "run_sequence E c (q # qs) =
     (case run E c q of Inl e \<Rightarrow> Inl e | Inr c' \<Rightarrow> run_sequence E c' qs)"

definition startup_exception :: "'db duckdb \<Rightarrow> string list \<Rightarrow> jserror option" where
  "startup_exception E stmts =
     (case new_Database E '':memory:'' of
        Inl e \<Rightarrow> Some e
      | Inr db \<Rightarrow>
          (case connect E db of
             Inl e \<Rightarrow> Some e
           | Inr conn \<Rightarrow>
               (case run_sequence E conn stmts of Inl e \<Rightarrow> Some e | Inr c \<Rightarrow> None)))"

text \<open>
  How SQL reads a string literal, from the character after its opening quote: two quotes
  in a row stand for one quote of the value, a quote alone closes the literal. The
  result is the value and the text after the closing quote, None for a literal that is
  never closed.
\<close>

fun read_literal :: "string \<Rightarrow> (string \<times> string) option" where
  "read_literal [] = None"
| "read_literal (c # cs) =
     (if c \<noteq> sq then map_option (\<lambda>(v, rest). (c # v, rest)) (read_literal cs)
      else
        (case cs of
           [] \<Rightarrow> Some ([], [])
         | d # ds \<Rightarrow>
             if d = sq then map_option (\<lambda>(v, rest). (sq # v, rest)) (read_literal ds)
             else Some ([], cs)))"

section \<open>Auxiliary facts\<close>

lemmas js_string_defs =
  startsWith_def toLowerCase_def trim_def isWhiteSpace_def toLowerCase_char_def

lemma not_string_missing:
  "\<not> truthy v \<or> typeof v \<noteq> ''string'' \<longleftrightarrow> (\<forall>t. v = JStr t \<longrightarrow> t = [])"
  by (cases v) auto

lemma route_unconfigured:
  "motherDuckConnection s = None \<Longrightarrow> route E r s = (Send 503 not_configured, s)"
  by (cases r)
    (simp_all add: route_def get_md_tables_def get_md_diagnostics_def get_md_ping_def
      post_md_query_def)

lemma app_unconfigured:
  "motherDuckConnection s = None \<Longrightarrow> app E ev now r s = ((503, not_configured), s)"
  by (simp add: app_def route_unconfigured)

lemma serve_unconfigured:
  "motherDuckConnection s = None \<Longrightarrow>
     serve E ev reqs s = (map (\<lambda>x. (503, not_configured)) reqs, s)"
  by (induction reqs) (auto simp: app_unconfigured)

lemma truthy_qs_iff: "truthy_qs v \<longleftrightarrow> v \<noteq> QStr []"
  by (cases v) auto

lemma schemaFilter_of_text:
  "schemaFilter_of query =
     (case param_text query ''schema'' of
        Inl e \<Rightarrow> Inl e
      | Inr st \<Rightarrow>
          Inr (if query ''schema'' = None \<or> query ''schema'' = Some (QStr []) then []
               else ''AND table_schema = '' @ [sq] @ st @ [sq]))"
  by (auto simp: schemaFilter_of_def param_text_def truthy_qs_iff split: option.splits sum.splits)

lemma includeViews_of_text:
  "includeViews_of query =
     (case param_text query ''includeViews'' of
        Inl e \<Rightarrow> Inl e
      | Inr vt \<Rightarrow> Inr (toLowerCase vt = ''true''))"
  by (auto simp: includeViews_of_def param_text_def truthy_qs_iff split: option.splits sum.splits)

lemma get_md_tables_thrown:
  assumes "motherDuckConnection s = Some c"
    and "param_text query ''schema'' = Inl e \<or>
         (\<exists>st. param_text query ''schema'' = Inr st \<and> param_text query ''includeViews'' = Inl e)"
  shows "get_md_tables E query s = (Next e, s)"
  using assms
  by (auto simp: get_md_tables_def schemaFilter_of_text includeViews_of_text)

lemma get_md_tables_issued:
  assumes "motherDuckConnection s = Some c"
    and "param_text query ''schema'' = Inr st"
    and "param_text query ''includeViews'' = Inr vt"
  shows "issued (snd (get_md_tables E query s)) = issued s @
     [tables_sql
        (if toLowerCase vt = ''true'' then ''IN ('BASE TABLE','VIEW')'' else ''= 'BASE TABLE'' @ [sq])
        (if query ''schema'' = None \<or> query ''schema'' = Some (QStr []) then []
         else ''AND table_schema = '' @ [sq] @ st @ [sq])]"
proof -
  let ?sql = "tables_sql
        (if toLowerCase vt = ''true'' then ''IN ('BASE TABLE','VIEW')'' else ''= 'BASE TABLE'' @ [sq])
        (if query ''schema'' = None \<or> query ''schema'' = Some (QStr []) then []
         else ''AND table_schema = '' @ [sq] @ st @ [sq])"
  obtain r c' where r: "all E c ?sql = (r, c')"
    by (cases "all E c ?sql") auto
  have "get_md_tables E query s =
      (case conn_all E s c ?sql of
         (Failed err, c', s') \<Rightarrow> (Next err, s')
       | (Rows rows, c', s') \<Rightarrow> (Send 200 (JObj [(''tables'', rows)]), s'))"
    using assms by (simp add: get_md_tables_def schemaFilter_of_text includeViews_of_text Let_def)
  then show ?thesis
    using r by (cases r) (simp_all add: conn_all_def)
qed

lemma replaceAll_absent: "c \<notin> set s \<Longrightarrow> replaceAll s c r = s"
  by (induction s) (auto simp: replaceAll_def)

lemma read_literal_escaped:
  "rest = [] \<or> hd rest \<noteq> sq \<Longrightarrow>
     read_literal (replaceAll s sq [sq, sq] @ sq # rest) = Some (s, rest)"
proof (induction s)
  case Nil
  then show ?case
    by (cases rest) (auto simp: replaceAll_def)
next
  case (Cons x xs)
  then show ?case
    by (auto simp: replaceAll_def)
qed

lemma read_literal_plain:
  assumes "sq \<notin> set st" and "rest = [] \<or> hd rest \<noteq> sq"
  shows "read_literal (st @ [sq] @ rest) = Some (st, rest)"
proof -
  have "replaceAll st sq [sq, sq] = st"
    using assms(1) by (induction st) (auto simp: replaceAll_def)
  then show ?thesis
    using read_literal_escaped [OF assms(2), of st] by simp
qed

lemma split_from_nonempty: "split_from p ps acc s \<noteq> []"
  by (induction p ps acc s rule: split_from.induct) auto

lemma split_from_absent:
  "\<not> includes_js s (p # ps) \<Longrightarrow> split_from p ps acc s = [rev acc @ s]"
  by (induction s arbitrary: acc) auto

lemma split_from_last:
  "includes_js s (p # ps) \<Longrightarrow>
     (\<exists>pre. s = pre @ (p # ps) @ last (split_from p ps acc s)) \<and>
     \<not> includes_js (last (split_from p ps acc s)) (p # ps)"
proof (induction p ps acc s rule: split_from.induct)
  case (1 p ps acc)
  then show ?case by simp
next
  case (2 p ps acc c cs)
  show ?case
  proof (cases "prefix (p # ps) (c # cs)")
    case True
    define rest where "rest = drop (length ps) cs"
    from True have whole: "c # cs = (p # ps) @ rest"
      by (auto simp: rest_def prefix_def)
    have step: "last (split_from p ps acc (c # cs)) = last (split_from p ps [] rest)"
      using True by (simp add: rest_def split_from_nonempty)
    show ?thesis
    proof (cases "includes_js rest (p # ps)")
      case again: True
      with "2.IH"(1) [OF True] obtain pre where
        "rest = pre @ (p # ps) @ last (split_from p ps [] rest)"
        and "\<not> includes_js (last (split_from p ps [] rest)) (p # ps)"
        by (auto simp: rest_def)
      with whole step show ?thesis
        by (metis append.assoc)
    next
      case False
      then have "split_from p ps [] rest = [rest]"
        by (simp add: split_from_absent)
      with whole step False show ?thesis
        by (metis append_Nil last.simps)
    qed
  next
    case False
    with "2.prems" have inc: "includes_js cs (p # ps)"
      by auto
    from "2.IH"(2) [OF False inc] obtain pre where
      "cs = pre @ (p # ps) @ last (split_from p ps (c # acc) cs)"
      and no: "\<not> includes_js (last (split_from p ps (c # acc) cs)) (p # ps)"
      by auto
    then have "c # cs = (c # pre) @ (p # ps) @ last (split_from p ps (c # acc) cs)"
      by simp
    with False no show ?thesis
      by (metis split_from.simps(2))
  qed
qed

lemma dbName_of_after_last:
  assumes "includes_js d ''md:''"
  shows "(\<exists>pre. d = pre @ ''md:'' @ dbName_of d) \<and> \<not> includes_js (dbName_of d) ''md:''"
  using assms split_from_last [of d "CHR ''m''" "''d:''" "[]"]
  by (simp add: dbName_of_def split_js_def pop_def template_string_def split_from_nonempty)

lemma try_attach_outcome:
  "motherDuckConnection s = None \<Longrightarrow>
     (case try_attach E tok database s of
        Inl (e, s') \<Rightarrow>
          motherDuckConnection s' = None \<and>
          startup_exception E (attach_sequence tok database) = Some e
      | Inr s' \<Rightarrow>
          motherDuckConnection s' \<noteq> None \<and>
          startup_exception E (attach_sequence tok database) = None \<and>
          issued s' = issued s @ attach_sequence tok database)"
  by (simp add: try_attach_def startup_exception_def attach_sequence_def conn_run_def Let_def
      split: sum.splits)

section \<open>The ad-hoc query endpoint\<close>

text \<open>
  Claim C1. The checks of \<^verbatim>\<open>POST /api/md/query\<close> are made in this order, and the first
  one that fails decides the response: without a connection the response is 503; with
  one, a \<^verbatim>\<open>sql\<close> field that is absent, not a string or the empty string gives 400 with
  the missing-SQL message; a non-empty string whose trimmed, lower-cased text does not
  start with \<^verbatim>\<open>select\<close> gives 400 with the only-SELECT message; every other string is
  sent to the engine, and the reply is made from what the engine hands back.
\<close>

theorem query_validation_order:
  "(motherDuckConnection s = None \<longrightarrow> post_md_query E body s = (Send 503 not_configured, s)) \<and>
   (\<forall>c. motherDuckConnection s = Some c \<longrightarrow>
      ((\<forall>t. body_sql body = JStr t \<longrightarrow> t = []) \<longrightarrow>
         post_md_query E body s = (Send 400 missing_sql, s)) \<and>
      (\<forall>t. body_sql body = JStr t \<and> t \<noteq> [] \<longrightarrow>
         (\<not> startsWith (toLowerCase (trim t)) ''select'' \<longrightarrow>
            post_md_query E body s = (Send 400 only_select, s)) \<and>
         (startsWith (toLowerCase (trim t)) ''select'' \<longrightarrow>
            issued (snd (post_md_query E body s)) = issued s @ [t] \<and>
            fst (post_md_query E body s) =
              (case fst (all E c t) of
                 Failed err \<Rightarrow> Next err
               | Rows rows \<Rightarrow> Send 200 (JObj [(''rows'', rows)])))))"
proof (intro conjI impI allI)
  assume "motherDuckConnection s = None"
  then show "post_md_query E body s = (Send 503 not_configured, s)"
    by (simp add: post_md_query_def)
next
  fix c
  assume c: "motherDuckConnection s = Some c" and "\<forall>t. body_sql body = JStr t \<longrightarrow> t = []"
  then have "\<not> truthy (body_sql body) \<or> typeof (body_sql body) \<noteq> ''string''"
    using not_string_missing [of "body_sql body"] by blast
  with c show "post_md_query E body s = (Send 400 missing_sql, s)"
    by (simp add: post_md_query_def Let_def)
next
  fix c t
  assume "motherDuckConnection s = Some c" and "body_sql body = JStr t \<and> t \<noteq> []"
    and "\<not> startsWith (toLowerCase (trim t)) ''select''"
  then show "post_md_query E body s = (Send 400 only_select, s)"
    by (simp add: post_md_query_def Let_def)
next
  fix c t
  assume "motherDuckConnection s = Some c" and "body_sql body = JStr t \<and> t \<noteq> []"
    and "startsWith (toLowerCase (trim t)) ''select''"
  then show "issued (snd (post_md_query E body s)) = issued s @ [t]"
    by (simp add: post_md_query_def Let_def conn_all_def split: prod.splits outcome.splits)
next
  fix c t
  assume "motherDuckConnection s = Some c" and "body_sql body = JStr t \<and> t \<noteq> []"
    and "startsWith (toLowerCase (trim t)) ''select''"
  then show "fst (post_md_query E body s) =
              (case fst (all E c t) of
                 Failed err \<Rightarrow> Next err
               | Rows rows \<Rightarrow> Send 200 (JObj [(''rows'', rows)]))"
    by (simp add: post_md_query_def Let_def conn_all_def split: prod.splits outcome.splits)
qed

text \<open>
  The four outcomes on requests: no connection; a body without the field; a statement
  that is not a SELECT; a SELECT with a leading blank and mixed case.
\<close>

theorem query_validation_order_witness:
  "post_md_query (stub_engine (\<lambda>sql. False)) (JObj [(''sql'', JStr ''select 1'')]) initial
     = (Send 503 not_configured, initial) \<and>
   post_md_query (stub_engine (\<lambda>sql. False)) (JObj [(''q'', JStr ''select 1'')]) configured
     = (Send 400 missing_sql, configured) \<and>
   post_md_query (stub_engine (\<lambda>sql. False)) (JObj [(''sql'', JStr ''drop table x'')]) configured
     = (Send 400 only_select, configured) \<and>
   issued (snd (post_md_query (stub_engine (\<lambda>sql. False))
      (JObj [(''sql'', JStr '' SeLeCt 1 as ok'')]) configured))
     = ['' SeLeCt 1 as ok''] \<and>
   fst (post_md_query (stub_engine (\<lambda>sql. False))
      (JObj [(''sql'', JStr '' SeLeCt 1 as ok'')]) configured)
     = Send 200 (JObj [(''rows'', stub_rows)])"
  using
    query_validation_order [of initial "stub_engine (\<lambda>sql. False)" "JObj [(''sql'', JStr ''select 1'')]"]
    query_validation_order [of configured "stub_engine (\<lambda>sql. False)" "JObj [(''q'', JStr ''select 1'')]"]
    query_validation_order [of configured "stub_engine (\<lambda>sql. False)" "JObj [(''sql'', JStr ''drop table x'')]"]
    query_validation_order [of configured "stub_engine (\<lambda>sql. False)" "JObj [(''sql'', JStr '' SeLeCt 1 as ok'')]"]
  by (simp add: initial_def configured_def stub_engine_def body_sql_def logical_or_def
      js_string_defs)

text \<open>
  Claim C2. For a string that passes the checks, the one statement sent to the engine is
  the caller's string as it came (neither trimmed nor lower-cased), and the rows the
  engine hands back are the \<^verbatim>\<open>rows\<close> field of the 200 response, unchanged.
\<close>

theorem query_relays_verbatim:
  assumes "motherDuckConnection s = Some c"
    and "body_sql body = JStr t" and "t \<noteq> []"
    and "startsWith (toLowerCase (trim t)) ''select''"
  shows "issued (snd (app E ev now (POST_md_query body) s)) = issued s @ [t] \<and>
         (\<forall>rows c'. all E c t = (Rows rows, c') \<longrightarrow>
            app E ev now (POST_md_query body) s =
              ((200, JObj [(''rows'', rows)]),
               s\<lparr>motherDuckConnection := Some c', issued := issued s @ [t]\<rparr>))"
proof (intro conjI allI impI)
  obtain r c1 where "all E c t = (r, c1)"
    by (cases "all E c t") auto
  with assms show "issued (snd (app E ev now (POST_md_query body) s)) = issued s @ [t]"
    by (cases r) (simp_all add: app_def route_def post_md_query_def Let_def conn_all_def)
next
  fix rows c'
  assume "all E c t = (Rows rows, c')"
  with assms show "app E ev now (POST_md_query body) s =
      ((200, JObj [(''rows'', rows)]),
       s\<lparr>motherDuckConnection := Some c', issued := issued s @ [t]\<rparr>)"
    by (simp add: app_def route_def post_md_query_def Let_def conn_all_def)
qed

text \<open>A SELECT with blanks around it and mixed case is sent with both.\<close>

theorem query_relays_verbatim_witness:
  "app (stub_engine (\<lambda>sql. False))
      \<lparr>MOTHERDUCK_TOKEN = Some ''t'', MOTHERDUCK_DATABASE = None, NODE_ENV = None\<rparr>
      ''2024-01-01T00:00:00.000Z'' (POST_md_query (JObj [(''sql'', JStr '' SeLeCt 1 as ok '')]))
      configured =
     ((200, JObj [(''rows'', stub_rows)]),
      \<lparr>motherDuckDb = Some 0, motherDuckConnection = Some 5, issued = ['' SeLeCt 1 as ok '']\<rparr>)"
  using query_relays_verbatim [of configured 4 "JObj [(''sql'', JStr '' SeLeCt 1 as ok '')]"
      "'' SeLeCt 1 as ok ''" "stub_engine (\<lambda>sql. False)"
      "\<lparr>MOTHERDUCK_TOKEN = Some ''t'', MOTHERDUCK_DATABASE = None, NODE_ENV = None\<rparr>"
      "''2024-01-01T00:00:00.000Z''"]
  by (simp add: configured_def stub_engine_def body_sql_def logical_or_def js_string_defs)

text \<open>
  Claim C3, as stated, promises status 400 for every request whose \<^verbatim>\<open>sql\<close> string does
  not start with \<^verbatim>\<open>select\<close>. The connection check comes first: with no connection the
  same request is answered 503.
\<close>

theorem rejection_status_counterexample:
  "body_sql (JObj [(''sql'', JStr ''drop table x'')]) = JStr ''drop table x'' \<and>
   \<not> startsWith (toLowerCase (trim ''drop table x'')) ''select'' \<and>
   reply_status (fst (post_md_query (stub_engine (\<lambda>sql. False))
      (JObj [(''sql'', JStr ''drop table x'')]) (initial :: nat server))) = Some 503 \<and>
   reply_status (fst (post_md_query (stub_engine (\<lambda>sql. False))
      (JObj [(''sql'', JStr ''drop table x'')]) (initial :: nat server))) \<noteq> Some 400"
  by (simp add: post_md_query_def initial_def body_sql_def logical_or_def js_string_defs)

text \<open>
  Claim C3, amended. A request whose \<^verbatim>\<open>sql\<close> string, trimmed and lower-cased, does not
  start with \<^verbatim>\<open>select\<close> never reaches the engine: the server's state, the log of
  statements included, is left as it was. With a connection configured the response is
  400 (the only-SELECT message, or the missing-SQL message for the empty string); with
  none it is 503.
\<close>

theorem non_select_never_reaches_engine:
  assumes "body_sql body = JStr t"
    and "\<not> startsWith (toLowerCase (trim t)) ''select''"
  shows "snd (post_md_query E body s) = s \<and>
         fst (post_md_query E body s) =
           (if motherDuckConnection s = None then Send 503 not_configured
            else if t = [] then Send 400 missing_sql
            else Send 400 only_select)"
  using assms
  by (cases "motherDuckConnection s") (simp_all add: post_md_query_def Let_def)

theorem non_select_never_reaches_engine_witness:
  "snd (post_md_query (stub_engine (\<lambda>sql. False)) (JObj [(''sql'', JStr ''drop table x'')]) configured)
     = configured \<and>
   fst (post_md_query (stub_engine (\<lambda>sql. False)) (JObj [(''sql'', JStr ''drop table x'')]) configured)
     = Send 400 only_select"
  using non_select_never_reaches_engine [of "JObj [(''sql'', JStr ''drop table x'')]"
      "''drop table x''" "stub_engine (\<lambda>sql. False)" configured]
  by (simp add: configured_def body_sql_def logical_or_def js_string_defs)

section \<open>Start without a token\<close>

text \<open>
  Claim C4. When the token variable is unset at start, initialisation leaves the
  connection unset and sends nothing to an engine; from then on every request to the
  tables, diagnostics, ping and query endpoints is answered 503 with the unavailable
  message, and the state stays the initial one, so no statement is ever sent.
\<close>

theorem unset_token_always_unavailable:
  assumes "MOTHERDUCK_TOKEN ev = None"
  shows "initializeMotherDuckConnection E ev initial = initial \<and>
         motherDuckConnection (initializeMotherDuckConnection E ev initial) = None \<and>
         issued (initializeMotherDuckConnection E ev initial) = [] \<and>
         serve E ev reqs (initializeMotherDuckConnection E ev initial) =
           (map (\<lambda>x. (503, not_configured)) reqs, initial)"
proof -
  have init: "initializeMotherDuckConnection E ev initial = initial"
    using assms by (simp add: initializeMotherDuckConnection_def)
  have none: "motherDuckConnection (initial :: 'a server) = None"
    by (simp add: initial_def)
  have log: "issued (initial :: 'a server) = []"
    by (simp add: initial_def)
  show ?thesis
    unfolding init using serve_unconfigured [OF none, of E ev reqs] none log by simp
qed

theorem unset_token_always_unavailable_witness:
  "serve (stub_engine (\<lambda>sql. False))
     \<lparr>MOTHERDUCK_TOKEN = None, MOTHERDUCK_DATABASE = Some ''md:perps'', NODE_ENV = None\<rparr>
     [(''t1'', GET_md_tables Map.empty), (''t2'', GET_md_diagnostics), (''t3'', GET_md_ping),
      (''t4'', POST_md_query (JObj [(''sql'', JStr ''select 1'')]))]
     (initializeMotherDuckConnection (stub_engine (\<lambda>sql. False))
        \<lparr>MOTHERDUCK_TOKEN = None, MOTHERDUCK_DATABASE = Some ''md:perps'', NODE_ENV = None\<rparr> initial)
   = ([(503, not_configured), (503, not_configured), (503, not_configured), (503, not_configured)],
      initial)"
proof -
  let ?ev = "\<lparr>MOTHERDUCK_TOKEN = None, MOTHERDUCK_DATABASE = Some ''md:perps'', NODE_ENV = None\<rparr>"
  let ?E = "stub_engine (\<lambda>sql. False)"
  let ?reqs = "[(''t1'', GET_md_tables Map.empty), (''t2'', GET_md_diagnostics), (''t3'', GET_md_ping),
      (''t4'', POST_md_query (JObj [(''sql'', JStr ''select 1'')]))]"
  have tok: "MOTHERDUCK_TOKEN ?ev = None"
    by simp
  have "serve ?E ?ev ?reqs (initializeMotherDuckConnection ?E ?ev initial) =
          (map (\<lambda>x. (503, not_configured)) ?reqs, initial)"
    using unset_token_always_unavailable [OF tok, of ?E ?reqs] by blast
  then show ?thesis
    by (simp del: serve.simps)
qed

section \<open>The diagnostics endpoint\<close>

text \<open>
  Claim C5. With a connection configured, \<^verbatim>\<open>GET /api/md/diagnostics\<close> sends all four
  sub-queries, in order, whatever each of them hands back; every field of the report
  depends on its own sub-query only (filled from the rows on success, null and a message
  under \<^verbatim>\<open>errors\<close> on failure); and the handler itself sends the report with status 200,
  so the error handler is never called.
\<close>

theorem diagnostics_always_reports:
  assumes "motherDuckConnection s = Some c"
    and "all E c ''PRAGMA database_list;'' = (r1, c1)"
    and "all E c1 ''SELECT current_database() AS current_database;'' = (r2, c2)"
    and "all E c2 ''SELECT schema_name FROM information_schema.schemata ORDER BY schema_name;''
           = (r3, c3)"
    and "all E c3 ''SELECT COUNT(*) AS table_count FROM information_schema.tables;'' = (r4, c4)"
  shows "get_md_diagnostics E s =
           (Send 200 (diagnostics_json
              \<lparr>database_list = populated r1 (\<lambda>rows. rows),
               current_database =
                 populated r2 (\<lambda>rows. logical_or (first_row ''current_database'' rows) Null),
               schemas = populated r3 (\<lambda>rows. rows),
               table_count = populated r4 (\<lambda>rows. nullish (first_row ''table_count'' rows) Null),
               errors =
                 recorded_error ''database_list'' r1 @ recorded_error ''current_database'' r2 @
                 recorded_error ''schemata'' r3 @ recorded_error ''table_count'' r4\<rparr>),
            s\<lparr>motherDuckConnection := Some c4,
              issued := issued s @
                [''PRAGMA database_list;'',
                 ''SELECT current_database() AS current_database;'',
                 ''SELECT schema_name FROM information_schema.schemata ORDER BY schema_name;'',
                 ''SELECT COUNT(*) AS table_count FROM information_schema.tables;'']\<rparr>)"
  using assms
  by (cases r1; cases r2; cases r3; cases r4)
    (simp_all add: get_md_diagnostics_def conn_all_def populated_def recorded_error_def
      first_row_def)

text \<open>
  The schema look-up fails: the other three fields are filled, the failure is recorded,
  and the status is 200.
\<close>

theorem diagnostics_always_reports_witness:
  "get_md_diagnostics
     (stub_engine (\<lambda>sql. sql =
        ''SELECT schema_name FROM information_schema.schemata ORDER BY schema_name;''))
     configured =
   (Send 200
      (JObj [(''database_list'', stub_rows),
             (''current_database'', JStr ''perps''),
             (''schemas'', Null),
             (''table_count'', JNum 7),
             (''errors'', JObj [(''schemata'', JStr ''refused'')])]),
    \<lparr>motherDuckDb = Some 0, motherDuckConnection = Some 8,
      issued =
        [''PRAGMA database_list;'',
         ''SELECT current_database() AS current_database;'',
         ''SELECT schema_name FROM information_schema.schemata ORDER BY schema_name;'',
         ''SELECT COUNT(*) AS table_count FROM information_schema.tables;'']\<rparr>)"
  using diagnostics_always_reports [of configured 4
      "stub_engine (\<lambda>sql. sql =
        ''SELECT schema_name FROM information_schema.schemata ORDER BY schema_name;'')"
      "Rows stub_rows" 5 "Rows stub_rows" 6 "Failed stub_error" 7 "Rows stub_rows" 8]
  by (simp add: configured_def stub_engine_def stub_rows_def stub_error_def populated_def
      recorded_error_def first_row_def optional_chain_def logical_or_def nullish_def
      diagnostics_json_def error_text_def)

section \<open>The table listing endpoint\<close>




text \<open>
  Claim C9, as stated, has every schema value embedded in a clause of the statement
  sent. The empty value is carried by a request (\<^verbatim>\<open>?schema=\<close>) and embedded nowhere: the
  statement sent has no clause comparing the schema with the empty string. And for a
  value that cannot be turned into a string (\<^verbatim>\<open>?schema[toString]=x\<close>) no statement is sent
  at all: the handler catches the TypeError and hands it to \<^verbatim>\<open>next\<close>.
\<close>

theorem empty_schema_not_embedded_counterexample:
  "issued (snd (get_md_tables (stub_engine (\<lambda>sql. False)) [''schema'' \<mapsto> QStr []] configured)) =
     [tables_sql (''= 'BASE TABLE'' @ [sq]) []] \<and>
   \<not> includes_js (tables_sql (''= 'BASE TABLE'' @ [sq]) [])
       (''AND table_schema = '' @ [sq] @ [] @ [sq]) \<and>
   get_md_tables (stub_engine (\<lambda>sql. False))
      [''schema'' \<mapsto> QObj [(''toString'', QStr ''x'')]] configured =
     (Next cannot_convert, configured)"
  by (simp add: get_md_tables_def schemaFilter_of_def includeViews_of_def configured_def
      conn_all_def stub_engine_def toLowerCase_def tables_sql_def)

text \<open>
  Claim C9, amended. With a connection configured and a schema value that is not the
  empty string: if the value, or the includeViews parameter after it, cannot be turned
  into a string, the error goes to \<^verbatim>\<open>next\<close> and nothing is sent; otherwise the value's
  string is embedded in the statement as it is, between the quotes of the clause
  \<^verbatim>\<open>AND table_schema = '...'\<close>, with nothing escaped. A string without a single quote is
  read back by SQL as the literal the schema is compared with. A string with one need
  not be: for \<^verbatim>\<open>x' OR '1'='1\<close> the literal ends after \<^verbatim>\<open>x\<close>, and the rest of the value is
  read as SQL.
\<close>

theorem schema_embedded_unescaped:
  assumes "motherDuckConnection s = Some c"
    and "query ''schema'' = Some v" and "v \<noteq> QStr []"
    and "tail = ''\<newline>      ORDER BY table_catalog, table_schema, table_name'' @ ''\<newline>    ''"
  shows "(\<forall>e. String_qs v = Inl e \<longrightarrow> get_md_tables E query s = (Next e, s)) \<and>
         (\<forall>st e. String_qs v = Inr st \<and> param_text query ''includeViews'' = Inl e \<longrightarrow>
            get_md_tables E query s = (Next e, s)) \<and>
         (\<forall>st vt. String_qs v = Inr st \<and> param_text query ''includeViews'' = Inr vt \<longrightarrow>
            issued (snd (get_md_tables E query s)) = issued s @
              [''\<newline>      SELECT table_catalog, table_schema, table_name, table_type'' @
            ''\<newline>      FROM information_schema.tables'' @
            ''\<newline>      WHERE table_type '' @
            (if toLowerCase vt = ''true'' then ''IN ('BASE TABLE','VIEW')''
             else ''= 'BASE TABLE'' @ [sq]) @
            ''\<newline>        AND table_schema NOT IN ('information_schema', 'pg_catalog')'' @
            ''\<newline>        '' @
            ''AND table_schema = '' @ [sq] @ st @ [sq] @ tail] \<and>
            (sq \<notin> set st \<longrightarrow> read_literal (st @ [sq] @ tail) = Some (st, tail))) \<and>
         read_literal (''x' OR '1'='1'' @ [sq] @ tail) =
           Some (''x'', '' OR '1'='1'' @ [sq] @ tail)"
proof -
  have schema: "param_text query ''schema'' = String_qs v"
    using assms(2) by (simp add: param_text_def)
  show ?thesis
  proof (intro conjI allI impI)
    fix e
    assume "String_qs v = Inl e"
    then show "get_md_tables E query s = (Next e, s)"
      using get_md_tables_thrown [OF assms(1), of query e E] schema by simp
  next
    fix st e
    assume "String_qs v = Inr st \<and> param_text query ''includeViews'' = Inl e"
    then show "get_md_tables E query s = (Next e, s)"
      using get_md_tables_thrown [OF assms(1), of query e E] schema by simp
  next
    fix st vt
    assume "String_qs v = Inr st \<and> param_text query ''includeViews'' = Inr vt"
    then show "issued (snd (get_md_tables E query s)) = issued s @
              [''\<newline>      SELECT table_catalog, table_schema, table_name, table_type'' @
            ''\<newline>      FROM information_schema.tables'' @
            ''\<newline>      WHERE table_type '' @
            (if toLowerCase vt = ''true'' then ''IN ('BASE TABLE','VIEW')''
             else ''= 'BASE TABLE'' @ [sq]) @
            ''\<newline>        AND table_schema NOT IN ('information_schema', 'pg_catalog')'' @
            ''\<newline>        '' @
            ''AND table_schema = '' @ [sq] @ st @ [sq] @ tail]"
      using get_md_tables_issued [OF assms(1), of query st vt E] schema assms(2,3,4)
      by (simp add: tables_sql_def)
  next
    fix st vt
    assume "sq \<notin> set st"
    then show "read_literal (st @ [sq] @ tail) = Some (st, tail)"
      using assms(4) by (intro read_literal_plain) simp_all
  next
    show "read_literal (''x' OR '1'='1'' @ [sq] @ tail) =
           Some (''x'', '' OR '1'='1'' @ [sq] @ tail)"
      by simp
  qed
qed

text \<open>The value \<^verbatim>\<open>x' OR '1'='1\<close>, and a value that cannot be turned into a string.\<close>

theorem schema_embedded_unescaped_witness:
  "issued (snd (get_md_tables (stub_engine (\<lambda>sql. False))
      [''schema'' \<mapsto> QStr ''x' OR '1'='1''] configured)) =
     [''\<newline>      SELECT table_catalog, table_schema, table_name, table_type'' @
      ''\<newline>      FROM information_schema.tables'' @
      ''\<newline>      WHERE table_type = 'BASE TABLE'' @ [sq] @
      ''\<newline>        AND table_schema NOT IN ('information_schema', 'pg_catalog')'' @
      ''\<newline>        AND table_schema = 'x' OR '1'='1'' @ [sq] @
      ''\<newline>      ORDER BY table_catalog, table_schema, table_name'' @
      ''\<newline>    ''] \<and>
   read_literal (''x' OR '1'='1'' @ [sq] @
      ''\<newline>      ORDER BY table_catalog, table_schema, table_name'' @ ''\<newline>    '') =
     Some (''x'', '' OR '1'='1'' @ [sq] @
      ''\<newline>      ORDER BY table_catalog, table_schema, table_name'' @ ''\<newline>    '') \<and>
   get_md_tables (stub_engine (\<lambda>sql. False))
      [''schema'' \<mapsto> QArr [QStr ''main'', QObj [(''toString'', QStr ''x'')]]] configured =
     (Next cannot_convert, configured)"
proof -
  let ?E = "stub_engine (\<lambda>sql. False)"
  let ?tail = "''\<newline>      ORDER BY table_catalog, table_schema, table_name'' @ ''\<newline>    ''"
  have conn: "motherDuckConnection configured = Some 4"
    by (simp add: configured_def)
  have log: "issued configured = []"
    by (simp add: configured_def)
  have "issued (snd (get_md_tables ?E [''schema'' \<mapsto> QStr ''x' OR '1'='1''] configured)) =
     [''\<newline>      SELECT table_catalog, table_schema, table_name, table_type'' @
      ''\<newline>      FROM information_schema.tables'' @
      ''\<newline>      WHERE table_type = 'BASE TABLE'' @ [sq] @
      ''\<newline>        AND table_schema NOT IN ('information_schema', 'pg_catalog')'' @
      ''\<newline>        AND table_schema = 'x' OR '1'='1'' @ [sq] @
      ''\<newline>      ORDER BY table_catalog, table_schema, table_name'' @
      ''\<newline>    ''] \<and>
    read_literal (''x' OR '1'='1'' @ [sq] @ ?tail) = Some (''x'', '' OR '1'='1'' @ [sq] @ ?tail)"
    using schema_embedded_unescaped [OF conn, of "[''schema'' \<mapsto> QStr ''x' OR '1'='1'']"
        "QStr ''x' OR '1'='1''" ?tail ?E]
    by (simp add: param_text_def log js_string_defs)
  moreover have "get_md_tables ?E
      [''schema'' \<mapsto> QArr [QStr ''main'', QObj [(''toString'', QStr ''x'')]]] configured =
     (Next cannot_convert, configured)"
    using schema_embedded_unescaped [OF conn,
        of "[''schema'' \<mapsto> QArr [QStr ''main'', QObj [(''toString'', QStr ''x'')]]]"
        "QArr [QStr ''main'', QObj [(''toString'', QStr ''x'')]]" ?tail ?E]
    by simp
  ultimately show ?thesis
    by simp
qed

section \<open>The error handler\<close>

text \<open>
  Claim C7, as stated, has the message redacted whenever the environment is not
  development mode. The handler redacts only when \<^verbatim>\<open>NODE_ENV\<close> is \<^verbatim>\<open>production\<close>: under
  \<^verbatim>\<open>NODE_ENV=test\<close> the response carries the error's own message.
\<close>

theorem redaction_counterexample:
  "NODE_ENV \<lparr>MOTHERDUCK_TOKEN = None, MOTHERDUCK_DATABASE = None, NODE_ENV = Some ''test''\<rparr>
     \<noteq> Some ''development'' \<and>
   getProp (snd (error_handler
       \<lparr>MOTHERDUCK_TOKEN = None, MOTHERDUCK_DATABASE = None, NODE_ENV = Some ''test''\<rparr>
       ''2024-01-01T00:00:00.000Z'' \<lparr>name = ''Error'', message = ''boom''\<rparr>)) ''message''
     = JStr ''boom'' \<and>
   getProp (snd (error_handler
       \<lparr>MOTHERDUCK_TOKEN = None, MOTHERDUCK_DATABASE = None, NODE_ENV = Some ''test''\<rparr>
       ''2024-01-01T00:00:00.000Z'' \<lparr>name = ''Error'', message = ''boom''\<rparr>)) ''message''
     \<noteq> JStr ''Internal server error''"
  by (simp add: error_handler_def)

text \<open>
  Claim C7, amended. Every error a route hands to \<^verbatim>\<open>next\<close> is answered with status 500
  and a body of the three fields error, message and timestamp; the message is the
  generic string when \<^verbatim>\<open>NODE_ENV\<close> is \<^verbatim>\<open>production\<close>, and the error's own message in every
  other environment, an unset \<^verbatim>\<open>NODE_ENV\<close> included.
\<close>

theorem error_response_shape:
  assumes "route E r s = (Next err, s')"
  shows "app E ev now r s =
           ((500,
             JObj [(''error'', JStr ''Something went wrong!''),
                   (''message'',
                      JStr (if NODE_ENV ev = Some ''production'' then ''Internal server error''
                            else message err)),
                   (''timestamp'', JStr now)]),
            s')"
  using assms by (simp add: app_def error_handler_def)

theorem error_response_shape_witness:
  "app (stub_engine (\<lambda>sql. True))
     \<lparr>MOTHERDUCK_TOKEN = Some ''t'', MOTHERDUCK_DATABASE = None, NODE_ENV = Some ''production''\<rparr>
     ''2024-01-01T00:00:00.000Z'' GET_md_ping configured =
     ((500,
       JObj [(''error'', JStr ''Something went wrong!''),
             (''message'', JStr ''Internal server error''),
             (''timestamp'', JStr ''2024-01-01T00:00:00.000Z'')]),
      \<lparr>motherDuckDb = Some 0, motherDuckConnection = Some 5, issued = [''SELECT 1 AS ok;'']\<rparr>) \<and>
   app (stub_engine (\<lambda>sql. True))
     \<lparr>MOTHERDUCK_TOKEN = Some ''t'', MOTHERDUCK_DATABASE = None, NODE_ENV = None\<rparr>
     ''2024-01-01T00:00:00.000Z'' GET_md_ping configured =
     ((500,
       JObj [(''error'', JStr ''Something went wrong!''),
             (''message'', JStr ''refused''),
             (''timestamp'', JStr ''2024-01-01T00:00:00.000Z'')]),
      \<lparr>motherDuckDb = Some 0, motherDuckConnection = Some 5, issued = [''SELECT 1 AS ok;'']\<rparr>)"
proof -
  have called: "route (stub_engine (\<lambda>sql. True)) GET_md_ping configured =
      (Next stub_error,
       \<lparr>motherDuckDb = Some 0, motherDuckConnection = Some 5, issued = [''SELECT 1 AS ok;'']\<rparr>)"
    by (simp add: route_def get_md_ping_def conn_all_def configured_def stub_engine_def)
  show ?thesis
    using error_response_shape [OF called,
        of "\<lparr>MOTHERDUCK_TOKEN = Some ''t'', MOTHERDUCK_DATABASE = None, NODE_ENV = Some ''production''\<rparr>"
           "''2024-01-01T00:00:00.000Z''"]
      error_response_shape [OF called,
        of "\<lparr>MOTHERDUCK_TOKEN = Some ''t'', MOTHERDUCK_DATABASE = None, NODE_ENV = None\<rparr>"
           "''2024-01-01T00:00:00.000Z''"]
    by (simp add: stub_error_def)
qed

section \<open>Start with a token\<close>

text \<open>
  Claim C8. When the token is present and a step of the start throws (opening the
  database, connecting, or any of install, load, attach and use), initialisation still
  returns: the exception is caught, the connection stays null, and every request to the
  four endpoints is then answered 503 as on a server without a token.
\<close>

theorem failed_attach_leaves_unconfigured:
  assumes "MOTHERDUCK_TOKEN ev = Some tok" and "tok \<noteq> []"
    and "startup_exception E
           (attach_sequence tok (env_or (MOTHERDUCK_DATABASE ev) ''md:default'')) = Some e"
  shows "motherDuckConnection (initializeMotherDuckConnection E ev initial) = None \<and>
         serve E ev reqs (initializeMotherDuckConnection E ev initial) =
           (map (\<lambda>x. (503, not_configured)) reqs, initializeMotherDuckConnection E ev initial)"
proof -
  have none: "motherDuckConnection (initial :: 'a server) = None"
    by (simp add: initial_def)
  have "motherDuckConnection (initializeMotherDuckConnection E ev initial) = None"
    using assms
      try_attach_outcome [OF none, of E tok "env_or (MOTHERDUCK_DATABASE ev) ''md:default''"]
    by (auto simp: initializeMotherDuckConnection_def split: sum.splits)
  then show ?thesis
    by (simp add: serve_unconfigured)
qed

text \<open>The engine refuses the attach statement: three statements were sent, none after.\<close>

theorem failed_attach_leaves_unconfigured_witness:
  "initializeMotherDuckConnection (stub_engine (\<lambda>sql. take 6 sql = ''ATTACH''))
     \<lparr>MOTHERDUCK_TOKEN = Some ''t0k'', MOTHERDUCK_DATABASE = None, NODE_ENV = None\<rparr> initial =
     \<lparr>motherDuckDb = Some 0, motherDuckConnection = None,
       issued = [''INSTALL motherduck;'', ''LOAD motherduck;'',
                 ''ATTACH 'md:default' (TOKEN 't0k');'']\<rparr> \<and>
   serve (stub_engine (\<lambda>sql. take 6 sql = ''ATTACH''))
     \<lparr>MOTHERDUCK_TOKEN = Some ''t0k'', MOTHERDUCK_DATABASE = None, NODE_ENV = None\<rparr>
     [(''t1'', GET_md_ping), (''t2'', POST_md_query (JObj [(''sql'', JStr ''select 1'')]))]
     (initializeMotherDuckConnection (stub_engine (\<lambda>sql. take 6 sql = ''ATTACH''))
        \<lparr>MOTHERDUCK_TOKEN = Some ''t0k'', MOTHERDUCK_DATABASE = None, NODE_ENV = None\<rparr> initial) =
     ([(503, not_configured), (503, not_configured)],
      \<lparr>motherDuckDb = Some 0, motherDuckConnection = None,
        issued = [''INSTALL motherduck;'', ''LOAD motherduck;'',
                  ''ATTACH 'md:default' (TOKEN 't0k');'']\<rparr>)"
proof -
  let ?E = "stub_engine (\<lambda>sql. take 6 sql = ''ATTACH'')"
  let ?ev = "\<lparr>MOTHERDUCK_TOKEN = Some ''t0k'', MOTHERDUCK_DATABASE = None, NODE_ENV = None\<rparr>"
  let ?reqs = "[(''t1'', GET_md_ping), (''t2'', POST_md_query (JObj [(''sql'', JStr ''select 1'')]))]"
  have state: "initializeMotherDuckConnection ?E ?ev initial =
      \<lparr>motherDuckDb = Some 0, motherDuckConnection = None,
        issued = [''INSTALL motherduck;'', ''LOAD motherduck;'',
                  ''ATTACH 'md:default' (TOKEN 't0k');'']\<rparr>"
    by (simp add: initializeMotherDuckConnection_def try_attach_def conn_run_def env_or_def
        stub_engine_def initial_def replaceAll_def attach_statement_def)
  have thrown: "startup_exception ?E
      (attach_sequence ''t0k'' (env_or (MOTHERDUCK_DATABASE ?ev) ''md:default'')) = Some stub_error"
    by (simp add: startup_exception_def attach_sequence_def env_or_def stub_engine_def
        replaceAll_def attach_statement_def)
  have "serve ?E ?ev ?reqs (initializeMotherDuckConnection ?E ?ev initial) =
      (map (\<lambda>x. (503, not_configured)) ?reqs, initializeMotherDuckConnection ?E ?ev initial)"
    using failed_attach_leaves_unconfigured [OF _ _ thrown, of ?reqs] by simp
  then show ?thesis
    by (simp add: state del: serve.simps)
qed

text \<open>
  Claim C10, as stated, has the name in the USE statement taken from the catalogue
  identifier: the text after its last \<^verbatim>\<open>md:\<close>, or the identifier itself. The source
  takes it from the identifier with its quotes already doubled: for the identifier
  \<^verbatim>\<open>md:o'brien\<close> the statement names \<^verbatim>\<open>o''brien\<close>, not \<^verbatim>\<open>o'brien\<close>.
\<close>

theorem use_name_counterexample:
  "dbName_of ''md:o'brien'' = ''o'brien'' \<and>
   issued (initializeMotherDuckConnection (stub_engine (\<lambda>sql. False))
     \<lparr>MOTHERDUCK_TOKEN = Some ''t0k'', MOTHERDUCK_DATABASE = Some ''md:o'brien'', NODE_ENV = None\<rparr>
     initial) =
     [''INSTALL motherduck;'', ''LOAD motherduck;'',
      ''ATTACH 'md:o'' @ [sq, sq] @ ''brien' (TOKEN 't0k');'',
      ''USE o'' @ [sq, sq] @ ''brien;''] \<and>
   last (issued (initializeMotherDuckConnection (stub_engine (\<lambda>sql. False))
     \<lparr>MOTHERDUCK_TOKEN = Some ''t0k'', MOTHERDUCK_DATABASE = Some ''md:o'brien'', NODE_ENV = None\<rparr>
     initial)) \<noteq> use_statement (dbName_of ''md:o'brien'')"
  by (simp add: initializeMotherDuckConnection_def try_attach_def conn_run_def env_or_def
      stub_engine_def initial_def replaceAll_def attach_statement_def use_statement_def
      dbName_of_def split_js_def pop_def template_string_def)

text \<open>
  Claim C10, amended. On a start that runs through, the statements sent are install,
  load, attach and use. In the attach statement the identifier and the token stand
  between quotes with every single quote doubled, so that SQL reads each literal back as
  the original value, closed where the source closes it. The name in the USE statement
  is taken from the quote-doubled identifier: the text after its last \<^verbatim>\<open>md:\<close> when it
  has one (what follows \<^verbatim>\<open>md:\<close> and holds no further \<^verbatim>\<open>md:\<close>), the quote-doubled
  identifier itself otherwise; it is embedded with no quotes around it and nothing more
  escaped. For an identifier without a single quote the quote-doubled identifier is the
  identifier.
\<close>

theorem attach_and_use_statements:
  assumes "MOTHERDUCK_TOKEN ev = Some tok" and "tok \<noteq> []"
    and "database = env_or (MOTHERDUCK_DATABASE ev) ''md:default''"
    and "safeToken = replaceAll tok sq [sq, sq]"
    and "safeDb = replaceAll database sq [sq, sq]"
    and "startup_exception E (attach_sequence tok database) = None"
  shows "issued (initializeMotherDuckConnection E ev initial) =
           [''INSTALL motherduck;'', ''LOAD motherduck;'',
            ''ATTACH '' @ [sq] @ safeDb @ [sq] @ '' (TOKEN '' @ [sq] @ safeToken @ [sq] @ '');'',
            ''USE '' @ dbName_of safeDb @ '';''] \<and>
         read_literal (safeDb @ [sq] @ '' (TOKEN '' @ [sq] @ safeToken @ [sq] @ '');'') =
           Some (database, '' (TOKEN '' @ [sq] @ safeToken @ [sq] @ '');'') \<and>
         read_literal (safeToken @ [sq] @ '');'') = Some (tok, '');'') \<and>
         (if includes_js safeDb ''md:''
          then (\<exists>pre. safeDb = pre @ ''md:'' @ dbName_of safeDb) \<and>
               \<not> includes_js (dbName_of safeDb) ''md:''
          else dbName_of safeDb = safeDb) \<and>
         (sq \<notin> set database \<longrightarrow> safeDb = database)"
proof (intro conjI)
  have none: "motherDuckConnection (initial :: 'a server) = None"
    by (simp add: initial_def)
  have "issued (initializeMotherDuckConnection E ev initial) = attach_sequence tok database"
    using assms(1,2,3,6) try_attach_outcome [OF none, of E tok database]
    by (auto simp: initializeMotherDuckConnection_def initial_def split: sum.splits)
  then show "issued (initializeMotherDuckConnection E ev initial) =
           [''INSTALL motherduck;'', ''LOAD motherduck;'',
            ''ATTACH '' @ [sq] @ safeDb @ [sq] @ '' (TOKEN '' @ [sq] @ safeToken @ [sq] @ '');'',
            ''USE '' @ dbName_of safeDb @ '';'']"
    using assms(4,5) by (simp add: attach_sequence_def attach_statement_def use_statement_def)
next
  show "read_literal (safeDb @ [sq] @ '' (TOKEN '' @ [sq] @ safeToken @ [sq] @ '');'') =
           Some (database, '' (TOKEN '' @ [sq] @ safeToken @ [sq] @ '');'')"
    using read_literal_escaped [of "'' (TOKEN '' @ [sq] @ safeToken @ [sq] @ '');''" database]
      assms(5) by simp
next
  show "read_literal (safeToken @ [sq] @ '');'') = Some (tok, '');'')"
    using read_literal_escaped [of "'');''" tok] assms(4) by simp
next
  show "if includes_js safeDb ''md:''
          then (\<exists>pre. safeDb = pre @ ''md:'' @ dbName_of safeDb) \<and>
               \<not> includes_js (dbName_of safeDb) ''md:''
          else dbName_of safeDb = safeDb"
    using dbName_of_after_last [of safeDb] by (simp add: dbName_of_def)
next
  show "sq \<notin> set database \<longrightarrow> safeDb = database"
    using assms(5) by (simp add: replaceAll_absent)
qed

text \<open>A token with a single quote, and the identifier \<^verbatim>\<open>md:perps\<close>.\<close>

theorem attach_and_use_statements_witness:
  "issued (initializeMotherDuckConnection (stub_engine (\<lambda>sql. False))
     \<lparr>MOTHERDUCK_TOKEN = Some ''s3cr'et'', MOTHERDUCK_DATABASE = Some ''md:perps'', NODE_ENV = None\<rparr>
     initial) =
     [''INSTALL motherduck;'', ''LOAD motherduck;'',
      ''ATTACH 'md:perps' (TOKEN 's3cr'' @ [sq, sq] @ ''et');'',
      ''USE perps;''] \<and>
   read_literal (''s3cr'' @ [sq, sq] @ ''et');'') = Some (''s3cr'et'', '');'') \<and>
   read_literal (''md:perps' (TOKEN 's3cr'' @ [sq, sq] @ ''et');'') =
     Some (''md:perps'', '' (TOKEN 's3cr'' @ [sq, sq] @ ''et');'')"
proof -
  let ?E = "stub_engine (\<lambda>sql. False)"
  let ?ev = "\<lparr>MOTHERDUCK_TOKEN = Some ''s3cr'et'', MOTHERDUCK_DATABASE = Some ''md:perps'',
               NODE_ENV = None\<rparr>"
  have ok: "startup_exception ?E (attach_sequence ''s3cr'et'' ''md:perps'') = None"
    by (simp add: startup_exception_def attach_sequence_def stub_engine_def)
  have name: "dbName_of ''md:perps'' = ''perps''"
    by (simp add: dbName_of_def split_js_def pop_def template_string_def)
  show ?thesis
    using attach_and_use_statements [of ?ev "''s3cr'et''" "''md:perps''"
        "''s3cr'' @ [sq, sq] @ ''et''" "''md:perps''" ?E] ok
    by (simp add: env_or_def replaceAll_def name)
qed

end
